theory Spec2Isabelle
  imports Complex_Main
begin

section \<open>Values, errors and tensors\<close>

text \<open>
  The module \<^verbatim>\<open>spn/experiments/RandomSPNs_layerwise/distributions.py\<close> defines two leaf
  layers of a sum-product network: \<^verbatim>\<open>RatNormal\<close>, a Gaussian leaf whose parameters are
  squashed into bounds, and \<^verbatim>\<open>IndependentMultivariate\<close>, which groups the features of a
  base leaf into blocks of \<^verbatim>\<open>cardinality\<close> members with a \<^verbatim>\<open>Product\<close> layer.

  Python exceptions are values of the type \<open>error\<close>; a function that may raise returns
  \<open>error + 'a\<close> with \<open>Inl\<close> for the exception. Float tensors are nested lists of reals:
  the model computes with exact real arithmetic, so rounding, infinities and NaN (for
  instance the square root of a negative entry) are not represented.
\<close>

datatype error =
    InvalidConfiguration
  | TypeError
  | AssertionError
  | ZeroDivisionError
  | ShapeMismatch
  | Exception string

type_synonym tensor2 = "real list list"
type_synonym tensor3 = "real list list list"

text \<open>Sequencing of calls that may raise: the first exception is the result.\<close>

definition bind_err :: "error + 'a \<Rightarrow> ('a \<Rightarrow> error + 'b) \<Rightarrow> error + 'b" where
  "bind_err r f = (case r of Inl e \<Rightarrow> Inl e | Inr v \<Rightarrow> f v)"

text \<open>Elementwise application of a scalar function to a tensor of two axes.\<close>

definition tmap :: "(real \<Rightarrow> real) \<Rightarrow> tensor2 \<Rightarrow> tensor2" where
  "tmap f t = map (map f) t"

text \<open>
  \<^verbatim>\<open>torch.sigmoid\<close> on one entry, as the exact function. Its values lie strictly between
  0 and 1; the floating-point function reaches 0.0 and 1.0 for inputs of large magnitude,
  so strict bounds below are facts of the exact function.
\<close>

definition sigmoid :: "real \<Rightarrow> real" where
  "sigmoid x = 1 / (1 + exp (- x))"

text \<open>
  The local variable \<^verbatim>\<open>sigma\<close> of \<^verbatim>\<open>RatNormal._get_base_distribution\<close> holds either a
  tensor (first branch) or the Python float \<^verbatim>\<open>1.0\<close> (second branch).
\<close>

datatype py_value = Tensor tensor2 | PyFloat real

text \<open>
  \<^verbatim>\<open>torch.sqrt\<close> takes a tensor; called with a Python number it raises
  \<^verbatim>\<open>TypeError: sqrt(): argument 'input' (position 1) must be Tensor, not float\<close>.
\<close>

definition torch_sqrt :: "py_value \<Rightarrow> error + tensor2" where
  "torch_sqrt v = (case v of Tensor t \<Rightarrow> Inr (tmap sqrt t) | PyFloat x \<Rightarrow> Inl TypeError)"

text \<open>Truth value of an optional float in a Python condition: \<^verbatim>\<open>None\<close> and \<^verbatim>\<open>0.0\<close> are false.\<close>

definition truthy :: "real option \<Rightarrow> bool" where
  "truthy v = (case v of None \<Rightarrow> False | Some x \<Rightarrow> x \<noteq> 0)"

section \<open>Collaborators that are not part of the module\<close>

text \<open>
  Modelled from the spec: \<^verbatim>\<open>check_valid\<close> of \<^verbatim>\<open>spn.algorithms.layerwise.type_checks\<close> is
  imported by the module but its body is not among the sources. The spec gives the
  ranges it enforces at its call sites: the value of \<^verbatim>\<open>min_sigma\<close> is at least the lower
  bound \<^verbatim>\<open>0.0\<close>; \<^verbatim>\<open>max_sigma\<close> is at least its lower bound \<^verbatim>\<open>min_sigma\<close>; and
  \<^verbatim>\<open>cardinality\<close>, checked against the bounds \<^verbatim>\<open>2\<close> and \<^verbatim>\<open>in_features + 1\<close>, satisfies
  \<open>2 \<le> cardinality \<le> in_features\<close>. So the lower bound is inclusive and the upper bound is
  exclusive. A bound that is \<^verbatim>\<open>None\<close> (the value of an omitted keyword argument) is not
  checked; with \<^verbatim>\<open>allow_none\<close> the value \<^verbatim>\<open>None\<close> is returned as it is. A violation
  raises, which the spec calls an InvalidConfiguration error. The \<^verbatim>\<open>expected_type\<close>
  argument is the type of the model's value.
\<close>

definition check_valid ::
  "'a::linorder option \<Rightarrow> 'a option \<Rightarrow> 'a option \<Rightarrow> bool \<Rightarrow> error + 'a option" where
  "check_valid val lower_bound upper_bound allow_none =
     (case val of
        None \<Rightarrow> if allow_none then Inr None else Inl InvalidConfiguration
      | Some v \<Rightarrow>
          if (case lower_bound of None \<Rightarrow> False | Some l \<Rightarrow> \<not> l \<le> v) then Inl InvalidConfiguration
          else if (case upper_bound of None \<Rightarrow> False | Some u \<Rightarrow> \<not> v < u) then Inl InvalidConfiguration
          else Inr (Some v))"

text \<open>The attributes every leaf layer inherits from the base class \<^verbatim>\<open>Leaf\<close>.\<close>

record Leaf =
  multiplicity :: int
  in_features :: int
  dropout :: real

text \<open>
  Modelled from the spec: the constructor of the base class \<^verbatim>\<open>Leaf\<close>
  (\<^verbatim>\<open>spn.algorithms.layerwise.distributions\<close>) is not among the sources. The spec lists
  \<^verbatim>\<open>multiplicity\<close> and \<^verbatim>\<open>in_features\<close> as integers that are at least 1 and says that the
  base class provides the constructor validation.
\<close>

definition Leaf_init :: "int \<Rightarrow> int \<Rightarrow> real \<Rightarrow> error + Leaf" where
  "Leaf_init m f d =
     bind_err (check_valid (Some m) (Some 1) None False) (\<lambda>_.
     bind_err (check_valid (Some f) (Some 1) None False) (\<lambda>_.
     Inr \<lparr>multiplicity = m, in_features = f, dropout = d\<rparr>))"

section \<open>RatNormal\<close>

text \<open>
  \<^verbatim>\<open>means\<close> and \<^verbatim>\<open>stds\<close> have the shape \<^verbatim>\<open>[1, in_features, multiplicity]\<close>; the leading axis
  of size one only serves broadcasting over the batch and is left out, so both are
  lists of \<^verbatim>\<open>in_features\<close> rows with \<^verbatim>\<open>multiplicity\<close> entries.
\<close>

record RatNormal = Leaf +
  means :: tensor2
  stds :: tensor2
  min_sigma :: real
  max_sigma :: real
  min_mean :: "real option"
  max_mean :: "real option"

text \<open>
  \<^verbatim>\<open>torch.randn(1, in_features, multiplicity)\<close> and \<^verbatim>\<open>torch.rand(...)\<close>: the random draws are
  an argument, one value for each feature and replica.
\<close>

definition random_tensor :: "(nat \<Rightarrow> nat \<Rightarrow> real) \<Rightarrow> int \<Rightarrow> int \<Rightarrow> tensor2" where
  "random_tensor rnd f m = map (\<lambda>i. map (\<lambda>j. rnd i j) [0..<nat m]) [0..<nat f]"

definition RatNormal_init ::
  "(nat \<Rightarrow> nat \<Rightarrow> real) \<Rightarrow> (nat \<Rightarrow> nat \<Rightarrow> real) \<Rightarrow> int \<Rightarrow> int \<Rightarrow> real \<Rightarrow> real \<Rightarrow> real \<Rightarrow>
   real option \<Rightarrow> real option \<Rightarrow> error + RatNormal" where
  "RatNormal_init randn rand m f d min_sigma0 max_sigma0 min_mean0 max_mean0 =
     bind_err (Leaf_init m f d) (\<lambda>base.
     bind_err (check_valid (Some min_sigma0) (Some 0) (Some max_sigma0) False) (\<lambda>_.
     bind_err (check_valid (Some max_sigma0) (Some min_sigma0) None False) (\<lambda>_.
     bind_err (check_valid min_mean0 None max_mean0 True) (\<lambda>lo.
     bind_err (check_valid max_mean0 min_mean0 None True) (\<lambda>hi.
     Inr \<lparr>multiplicity = multiplicity base, in_features = in_features base,
          dropout = dropout base,
          means = random_tensor randn f m, stds = random_tensor rand f m,
          min_sigma = min_sigma0, max_sigma = max_sigma0,
          min_mean = lo, max_mean = hi\<rparr>)))))"

text \<open>The object \<^verbatim>\<open>dist.Normal(loc, scale)\<close>.\<close>

record Normal =
  loc :: tensor2
  scale :: tensor2

text \<open>
  \<^verbatim>\<open>RatNormal._get_base_distribution\<close>. The statements run in the order of the source:
  \<^verbatim>\<open>sigma\<close>, then the means (where the \<^verbatim>\<open>assert\<close> may raise), then \<^verbatim>\<open>torch.sqrt(sigma)\<close>.
\<close>

definition RatNormal_sigma :: "RatNormal \<Rightarrow> py_value" where
  "RatNormal_sigma self =
     (if min_sigma self < max_sigma self then
        (let sigma_ratio = tmap sigmoid (stds self)
         in Tensor (tmap (\<lambda>r. min_sigma self + (max_sigma self - min_sigma self) * r) sigma_ratio))
      else PyFloat 1)"

definition RatNormal_means :: "RatNormal \<Rightarrow> error + tensor2" where
  "RatNormal_means self =
     (if truthy (max_mean self) then
        (case min_mean self of
           None \<Rightarrow> Inl AssertionError
         | Some lo \<Rightarrow>
             (let mean_range = (case max_mean self of Some hi \<Rightarrow> hi | None \<Rightarrow> 0) - lo
              in Inr (tmap (\<lambda>m. sigmoid m * mean_range + lo) (means self))))
      else Inr (means self))"

definition RatNormal_get_base_distribution :: "RatNormal \<Rightarrow> error + Normal" where
  "RatNormal_get_base_distribution self =
     (let sigma = RatNormal_sigma self
      in bind_err (RatNormal_means self) (\<lambda>means'.
         bind_err (torch_sqrt sigma) (\<lambda>sd.
         Inr \<lparr>loc = means', scale = sd\<rparr>)))"

text \<open>
  The default \<^verbatim>\<open>leaf_base_class\<close> of \<^verbatim>\<open>IndependentMultivariate\<close>: the class \<^verbatim>\<open>RatNormal\<close>
  called with \<^verbatim>\<open>multiplicity\<close>, \<^verbatim>\<open>in_features\<close> and \<^verbatim>\<open>dropout\<close> only, so that the bounds
  take their default values \<^verbatim>\<open>min_sigma=0.1\<close>, \<^verbatim>\<open>max_sigma=1.0\<close>, \<^verbatim>\<open>min_mean=None\<close>,
  \<^verbatim>\<open>max_mean=None\<close>.
\<close>

definition RatNormal_class ::
  "(nat \<Rightarrow> nat \<Rightarrow> real) \<Rightarrow> (nat \<Rightarrow> nat \<Rightarrow> real) \<Rightarrow> int \<Rightarrow> int \<Rightarrow> real \<Rightarrow> error + RatNormal" where
  "RatNormal_class randn rand m f d = RatNormal_init randn rand m f d (1 / 10) 1 None None"

text \<open>
  Modelled from the spec: \<^verbatim>\<open>Leaf.forward\<close>, the forward dispatch of the base class, is not
  among the sources. By the spec it evaluates the log-likelihood of the base distribution
  on the input of shape \<^verbatim>\<open>[batch, in_features]\<close>, broadcasting each input value over the
  multiplicity axis, and fails when the feature count of the input differs from
  \<^verbatim>\<open>in_features\<close>. The dropout masking inside the base class is optional and left out.
\<close>

definition log_prob :: "real \<Rightarrow> real \<Rightarrow> real \<Rightarrow> real" where
  "log_prob mu sd v = - ((v - mu)\<^sup>2) / (2 * sd\<^sup>2) - ln sd - ln (sqrt (2 * pi))"

definition Leaf_forward :: "RatNormal \<Rightarrow> tensor2 \<Rightarrow> error + tensor3" where
  "Leaf_forward self x =
     bind_err (RatNormal_get_base_distribution self) (\<lambda>d.
     if \<exists>row\<in>set x. int (length row) \<noteq> in_features self then Inl ShapeMismatch
     else Inr (map (\<lambda>row.
                 map (\<lambda>(v, mu, sd). map (\<lambda>(m, s). log_prob m s v) (zip mu sd))
                     (zip row (zip (loc d) (scale d)))) x))"

section \<open>Product\<close>

record Product =
  p_in_features :: int
  p_cardinality :: int
  out_features :: int

text \<open>
  Modelled from the spec: the layer \<^verbatim>\<open>Product\<close> of \<^verbatim>\<open>spn.algorithms.layerwise.layers\<close> is
  not among the sources. By the spec it is built from \<^verbatim>\<open>in_features\<close> and \<^verbatim>\<open>cardinality\<close>,
  computes the output feature count \<open>ceil (in_features / cardinality)\<close> (read by the module
  as \<^verbatim>\<open>_out_features\<close>; the division raises for a zero cardinality), and its forward
  partitions the feature axis into consecutive groups of \<^verbatim>\<open>cardinality\<close> members and sums
  the entries of each group, one value for each group and replica.
\<close>

definition Product_init :: "int \<Rightarrow> int \<Rightarrow> error + Product" where
  "Product_init f c =
     (if c = 0 then Inl ZeroDivisionError
      else Inr \<lparr>p_in_features = f, p_cardinality = c,
                out_features = \<lceil>real_of_int f / real_of_int c\<rceil>\<rparr>)"

definition chunks :: "nat \<Rightarrow> 'a list \<Rightarrow> 'a list list" where
  "chunks c xs = map (\<lambda>g. take c (drop (g * c) xs)) [0..<(length xs + c - 1) div c]"

definition sum_rows :: "real list list \<Rightarrow> real list" where
  "sum_rows rows = (case rows of [] \<Rightarrow> [] | r # rs \<Rightarrow> foldl (map2 (+)) r rs)"

definition Product_forward :: "Product \<Rightarrow> tensor3 \<Rightarrow> error + tensor3" where
  "Product_forward p x = Inr (map (\<lambda>b. map sum_rows (chunks (nat (p_cardinality p)) b)) x)"

section \<open>IndependentMultivariate\<close>

text \<open>
  The attribute \<^verbatim>\<open>_pad\<close> is the field \<open>pad\<close>, the attribute \<^verbatim>\<open>prod\<close> the field \<open>prod'\<close>. The
  string \<^verbatim>\<open>out_shape\<close> is kept as the two numbers it prints. The class of the base leaf is
  an argument of the constructor, so the record is generic in the base leaf.
\<close>

record 'l IndependentMultivariate = Leaf +
  base_leaf :: 'l
  prod' :: Product
  pad :: int
  cardinality :: int
  out_shape :: "int \<times> int"

text \<open>Python's \<^verbatim>\<open>%\<close> on integers: the sign of the result follows the divisor; zero raises.\<close>

definition py_mod :: "int \<Rightarrow> int \<Rightarrow> error + int" where
  "py_mod a b = (if b = 0 then Inl ZeroDivisionError else Inr (a mod b))"

text \<open>The expression of line 88, \<^verbatim>\<open>(cardinality - self.in_features % cardinality) % cardinality\<close>.\<close>

definition pad_amount :: "int \<Rightarrow> int \<Rightarrow> error + int" where
  "pad_amount f c = bind_err (py_mod f c) (\<lambda>r. py_mod (c - r) c)"

definition IndependentMultivariate_init ::
  "(int \<Rightarrow> int \<Rightarrow> real \<Rightarrow> error + 'l) \<Rightarrow> int \<Rightarrow> int \<Rightarrow> int \<Rightarrow> real \<Rightarrow>
   error + 'l IndependentMultivariate" where
  "IndependentMultivariate_init leaf_base_class m f c d =
     bind_err (Leaf_init m f d) (\<lambda>base.
     bind_err (leaf_base_class m f d) (\<lambda>bl.
     bind_err (Product_init f c) (\<lambda>pr.
     bind_err (pad_amount (in_features base) c) (\<lambda>p.
     bind_err (check_valid (Some c) (Some 2) (Some (f + 1)) False) (\<lambda>_.
     Inr \<lparr>multiplicity = multiplicity base, in_features = in_features base,
          dropout = dropout base,
          base_leaf = bl, prod' = pr, pad = p, cardinality = c,
          out_shape = (out_features pr, m)\<rparr>)))))"

text \<open>
  \<^verbatim>\<open>F.pad(x, pad=[0, 0, 0, p], mode="constant", value=v)\<close> on a tensor of three axes: the
  last axis is not padded, the feature axis gets \<open>p\<close> slices of the constant \<open>v\<close> at its
  end. A negative \<open>p\<close> removes slices from the end instead.
\<close>

definition width :: "'a list list \<Rightarrow> nat" where
  "width b = (case b of [] \<Rightarrow> 0 | r # _ \<Rightarrow> length r)"

definition F_pad :: "tensor3 \<Rightarrow> int \<Rightarrow> real \<Rightarrow> tensor3" where
  "F_pad x p v =
     map (\<lambda>b. if 0 \<le> p then b @ replicate (nat p) (replicate (width b) v)
              else take (length b - nat (- p)) b) x"

text \<open>
  \<^verbatim>\<open>IndependentMultivariate.forward\<close>. The call \<^verbatim>\<open>self.base_leaf(x)\<close> dispatches to the forward
  of the base leaf's class and \<^verbatim>\<open>self.prod(x)\<close> to the forward of the product layer; both are
  arguments here, so that a statement can say what each of them receives.
  \<^verbatim>\<open>if self._pad\<close> holds for a nonzero integer.
\<close>

definition forward ::
  "('l \<Rightarrow> tensor2 \<Rightarrow> error + tensor3) \<Rightarrow> (Product \<Rightarrow> tensor3 \<Rightarrow> error + tensor3) \<Rightarrow>
   'l IndependentMultivariate \<Rightarrow> tensor2 \<Rightarrow> error + tensor3" where
  "forward leaf_forward prod_forward self x =
     bind_err (leaf_forward (base_leaf self) x) (\<lambda>x1.
     let x2 = (if pad self \<noteq> 0 then F_pad x1 (pad self) 0 else x1)
     in prod_forward (prod' self) x2)"

definition IndependentMultivariate_get_base_distribution ::
  "'l IndependentMultivariate \<Rightarrow> error + Normal" where
  "IndependentMultivariate_get_base_distribution self =
     Inl (Exception ''IndependentMultivariate does not have an explicit PyTorch base distribution.'')"

text \<open>
  \<^verbatim>\<open>IndependentMultivariate.sample\<close>. The sample methods of the product layer and of the base
  leaf are arguments; they draw random numbers, so they pass a state \<open>'s\<close> along. An
  exception of the first call ends the method before the second call.
\<close>

type_synonym indices = "int list list"

definition sample ::
  "(Product \<Rightarrow> indices option \<Rightarrow> int option \<Rightarrow> 's \<Rightarrow> (error + indices option) \<times> 's) \<Rightarrow>
   ('l \<Rightarrow> indices option \<Rightarrow> int option \<Rightarrow> 's \<Rightarrow> (error + tensor2) \<times> 's) \<Rightarrow>
   'l IndependentMultivariate \<Rightarrow> indices option \<Rightarrow> tensor2 option \<Rightarrow> int option \<Rightarrow> 's \<Rightarrow>
   (error + tensor2) \<times> 's" where
  "sample prod_sample leaf_sample self indices0 evidence n s =
     (case prod_sample (prod' self) indices0 n s of
        (Inl e, s1) \<Rightarrow> (Inl e, s1)
      | (Inr indices1, s1) \<Rightarrow>
          (case leaf_sample (base_leaf self) indices1 n s1 of
             (Inl e, s2) \<Rightarrow> (Inl e, s2)
           | (Inr samples, s2) \<Rightarrow> (Inr samples, s2)))"

text \<open>
  To observe the order of the calls, the two sample methods are wrapped so that each call
  is appended to a log that is part of the state.
\<close>

datatype call =
    CombinerSample "indices option" "int option"
  | LeafSample "indices option" "int option"

definition logged_prod_sample ::
  "(Product \<Rightarrow> indices option \<Rightarrow> int option \<Rightarrow> 's \<Rightarrow> (error + indices option) \<times> 's) \<Rightarrow>
   Product \<Rightarrow> indices option \<Rightarrow> int option \<Rightarrow> call list \<times> 's \<Rightarrow>
   (error + indices option) \<times> call list \<times> 's" where
  "logged_prod_sample prod_sample p i n st =
     (case prod_sample p i n (snd st) of
        (r, s1) \<Rightarrow> (r, fst st @ [CombinerSample i n], s1))"

definition logged_leaf_sample ::
  "('l \<Rightarrow> indices option \<Rightarrow> int option \<Rightarrow> 's \<Rightarrow> (error + tensor2) \<times> 's) \<Rightarrow>
   'l \<Rightarrow> indices option \<Rightarrow> int option \<Rightarrow> call list \<times> 's \<Rightarrow>
   (error + tensor2) \<times> call list \<times> 's" where
  "logged_leaf_sample leaf_sample l i n st =
     (case leaf_sample l i n (snd st) of
        (r, s1) \<Rightarrow> (r, fst st @ [LeafSample i n], s1))"

section \<open>Shapes\<close>

definition has_shape2 :: "'a list list \<Rightarrow> nat \<Rightarrow> nat \<Rightarrow> bool" where
  "has_shape2 t f m = (length t = f \<and> (\<forall>r\<in>set t. length r = m))"

definition has_shape3 :: "'a list list list \<Rightarrow> nat \<Rightarrow> nat \<Rightarrow> nat \<Rightarrow> bool" where
  "has_shape3 t b f m = (length t = b \<and> (\<forall>r\<in>set t. has_shape2 r f m))"

section \<open>Basic facts\<close>

lemma bind_err_Inr_iff: "bind_err r f = Inr y \<longleftrightarrow> (\<exists>v. r = Inr v \<and> f v = Inr y)"
  by (cases r) (simp_all add: bind_err_def)

lemma bind_err_simps: "bind_err (Inl e) f = Inl e" "bind_err (Inr v) f = f v"
  by (simp_all add: bind_err_def)

lemma check_valid_Some_iff:
  "check_valid (Some v) lo hi an = Inr r \<longleftrightarrow>
     r = Some v \<and> (\<forall>l. lo = Some l \<longrightarrow> l \<le> v) \<and> (\<forall>u. hi = Some u \<longrightarrow> v < u)"
  by (auto simp: check_valid_def split: option.splits)

lemma pad_amount_eq: "c \<noteq> 0 \<Longrightarrow> pad_amount f c = Inr ((c - f mod c) mod c)"
  by (simp add: pad_amount_def py_mod_def bind_err_def)

lemma init_Inr_D:
  assumes "IndependentMultivariate_init lbc m f c d = Inr self"
  shows "1 \<le> m" "1 \<le> f" "2 \<le> c" "c \<le> f" "pad self = (c - f mod c) mod c"
    "p_cardinality (prod' self) = c" "in_features self = f" "multiplicity self = m"
    "lbc m f d = Inr (base_leaf self)" "cardinality self = c"
  using assms
  by (auto simp: IndependentMultivariate_init_def Leaf_init_def Product_init_def bind_err_Inr_iff
      check_valid_Some_iff pad_amount_def py_mod_def split: if_splits)

section \<open>RatNormal: effective parameters\<close>

text \<open>The sigmoid takes its values strictly between 0 and 1.\<close>

lemma sigmoid_bounds: "0 < sigmoid x" "sigmoid x < 1"
  by (simp_all add: sigmoid_def add_pos_pos)

lemma sigma_strictly_inside:
  assumes "lo < hi"
  shows "lo < lo + (hi - lo) * sigmoid s" "lo + (hi - lo) * sigmoid s < hi"
proof -
  have p: "0 < hi - lo" using assms by simp
  show "lo < lo + (hi - lo) * sigmoid s"
    using mult_pos_pos[OF p sigmoid_bounds(1)[of s]] by simp
  have "(hi - lo) * sigmoid s < (hi - lo) * 1"
    using p sigmoid_bounds(2)[of s] by (intro mult_strict_left_mono) simp_all
  then show "lo + (hi - lo) * sigmoid s < hi" by simp
qed

text \<open>
  First branch of the accessor: for \<open>min_sigma < max_sigma\<close> the variable \<^verbatim>\<open>sigma\<close> is the
  tensor \<open>min_sigma + (max_sigma - min_sigma) * sigmoid stds\<close>, each entry lies strictly
  between the bounds, and whenever the accessor returns, the scale of the distribution is
  the entrywise square root of \<^verbatim>\<open>sigma\<close>.
\<close>

lemma sigma_tensor:
  assumes "min_sigma self < max_sigma self"
  shows "RatNormal_sigma self =
     Tensor (tmap (\<lambda>s. min_sigma self + (max_sigma self - min_sigma self) * sigmoid s) (stds self))"
  using assms by (simp add: RatNormal_sigma_def tmap_def comp_def)

lemma sigma_bounded:
  assumes "min_sigma self < max_sigma self" "RatNormal_sigma self = Tensor t"
    "row \<in> set t" "v \<in> set row"
  shows "min_sigma self < v \<and> v < max_sigma self"
  using assms sigma_strictly_inside[OF assms(1)]
  by (auto simp: sigma_tensor tmap_def)

lemma scale_is_sqrt_sigma:
  assumes "RatNormal_get_base_distribution self = Inr d"
  shows "\<exists>t. RatNormal_sigma self = Tensor t \<and> scale d = tmap sqrt t"
  using assms
  by (auto simp: RatNormal_get_base_distribution_def bind_err_Inr_iff torch_sqrt_def Let_def
      split: py_value.splits)

text \<open>
  Second branch: for \<open>min_sigma \<ge> max_sigma\<close> the variable \<^verbatim>\<open>sigma\<close> is the Python float
  \<^verbatim>\<open>1.0\<close>, which \<^verbatim>\<open>torch.sqrt\<close> does not accept, so the accessor raises.
\<close>

lemma sigma_else_branch_raises:
  assumes "\<not> min_sigma self < max_sigma self"
  shows "RatNormal_sigma self = PyFloat 1" "isl (RatNormal_get_base_distribution self)"
  using assms
  by (auto simp: RatNormal_get_base_distribution_def RatNormal_sigma_def torch_sqrt_def bind_err_def
      split: sum.splits)

text \<open>
  C1. The claim: for \<open>min_sigma < max_sigma\<close> the derivation computes
  \<open>sigma = min_sigma + (max_sigma - min_sigma) * sigmoid raw_stds\<close>, strictly inside the
  bounds, and hands \<open>sqrt sigma\<close> to the Normal distribution; for \<open>min_sigma = max_sigma\<close>
  \<^verbatim>\<open>sigma\<close> is the constant 1.0 and the effective variance is 1.0. The first half is
  \<open>sigma_tensor\<close>, \<open>sigma_bounded\<close> and \<open>scale_is_sqrt_sigma\<close>. The second half fails on
  the code: on the instance below, whose bounds are both \<open>1/2\<close>, \<^verbatim>\<open>sigma\<close> is the float 1.0
  and the accessor raises TypeError at \<^verbatim>\<open>torch.sqrt(sigma)\<close> instead of returning a
  distribution of variance 1.0.
\<close>

theorem equal_sigma_bounds_raise:
  "RatNormal_sigma \<lparr>multiplicity = 1, in_features = 1, dropout = 0, means = [[0]], stds = [[0]],
      min_sigma = 1 / 2, max_sigma = 1 / 2, min_mean = None, max_mean = None\<rparr> = PyFloat 1
   \<and> RatNormal_get_base_distribution
       \<lparr>multiplicity = 1, in_features = 1, dropout = 0, means = [[0]], stds = [[0]],
        min_sigma = 1 / 2, max_sigma = 1 / 2, min_mean = None, max_mean = None\<rparr> = Inl TypeError"
  by (simp add: RatNormal_get_base_distribution_def RatNormal_sigma_def RatNormal_means_def
      truthy_def torch_sqrt_def bind_err_def)

text \<open>
  The effective mean: with \<^verbatim>\<open>max_mean\<close> unset it is the raw mean; with both bounds set and
  a nonzero \<^verbatim>\<open>max_mean\<close> it is \<open>sigmoid raw_means * (max_mean - min_mean) + min_mean\<close>,
  which lies strictly between the bounds when \<open>min_mean < max_mean\<close>.
\<close>

lemma effective_mean_identity:
  "max_mean self = None \<Longrightarrow> RatNormal_means self = Inr (means self)"
  by (simp add: RatNormal_means_def truthy_def)

lemma effective_mean_bounded:
  assumes "min_mean self = Some lo" "max_mean self = Some hi" "hi \<noteq> 0"
  shows "RatNormal_means self = Inr (tmap (\<lambda>m. sigmoid m * (hi - lo) + lo) (means self))"
  using assms by (simp add: RatNormal_means_def truthy_def)

lemma effective_mean_inside:
  assumes "lo < hi"
  shows "lo < sigmoid m * (hi - lo) + lo \<and> sigmoid m * (hi - lo) + lo < hi"
  using sigma_strictly_inside[OF assms, of m] by (simp add: mult.commute add.commute)

text \<open>
  C2. The claim: with both bounds set and \<open>min_mean < max_mean\<close> the effective mean is
  \<open>sigmoid raw_means * (max_mean - min_mean) + min_mean\<close> and lies in
  \<open>[min_mean, max_mean]\<close>. The code tests \<^verbatim>\<open>if self.max_mean:\<close>, which is false for the
  float \<^verbatim>\<open>0.0\<close> as well as for \<^verbatim>\<open>None\<close>: the leaf constructed with \<open>min_mean = -1\<close>,
  \<open>max_mean = 0\<close> and the raw mean 3 has the effective mean 3, outside \<open>[-1, 0]\<close>.
\<close>

theorem zero_max_mean_disables_bounding:
  "\<exists>self d. RatNormal_init (\<lambda>_ _. 3) (\<lambda>_ _. 0) 1 1 0 (1 / 10) 1 (Some (- 1)) (Some 0) = Inr self
     \<and> min_mean self = Some (- 1) \<and> max_mean self = Some 0 \<and> means self = [[3]]
     \<and> RatNormal_get_base_distribution self = Inr d \<and> loc d = [[3]]"
  by (simp add: RatNormal_init_def Leaf_init_def check_valid_def bind_err_def random_tensor_def
      RatNormal_get_base_distribution_def RatNormal_sigma_def RatNormal_means_def
      truthy_def torch_sqrt_def)

section \<open>RatNormal: construction\<close>

text \<open>
  The constructor rejects bounds that are out of order, \<open>max_sigma < min_sigma\<close> or both
  mean bounds given with \<open>max_mean < min_mean\<close>, whatever the other arguments are.
\<close>

lemma construction_rejects_inverted_bounds:
  assumes "max_sigma0 < min_sigma0 \<or>
           (\<exists>a b. min_mean0 = Some a \<and> max_mean0 = Some b \<and> b < a)"
  shows "isl (RatNormal_init randn rand m f d min_sigma0 max_sigma0 min_mean0 max_mean0)"
  using assms
  by (auto simp: RatNormal_init_def Leaf_init_def check_valid_def bind_err_def
      split: option.splits)

text \<open>
  C7. The claim: construction fails, at construction time and not at first use, whenever
  exactly one of \<^verbatim>\<open>min_mean\<close> and \<^verbatim>\<open>max_mean\<close> is provided. Lines 45 and 46 check each mean
  bound against the other one with \<^verbatim>\<open>allow_none=True\<close>: a value that is \<^verbatim>\<open>None\<close> is
  returned as it is, and a bound that is \<^verbatim>\<open>None\<close> is not checked. So the constructor
  returns an instance for \<open>min_mean = None\<close>, \<open>max_mean = 1\<close>, and the code's own assertion
  of line 57, \<^verbatim>\<open>assert self.min_mean is not None\<close>, fails on that instance at the first
  use of the accessor.
\<close>

theorem single_mean_bound_fails_at_first_use:
  "\<exists>self. RatNormal_init (\<lambda>_ _. 0) (\<lambda>_ _. 0) 1 1 0 (1 / 10) 1 None (Some 1) = Inr self
     \<and> min_mean self = None \<and> max_mean self = Some 1
     \<and> RatNormal_get_base_distribution self = Inl AssertionError"
  by (simp add: RatNormal_init_def Leaf_init_def check_valid_def bind_err_def random_tensor_def
      RatNormal_get_base_distribution_def RatNormal_sigma_def RatNormal_means_def
      truthy_def torch_sqrt_def)

section \<open>The composite leaf: accessor, construction, padding amount\<close>

text \<open>
  C6. For every \<^verbatim>\<open>IndependentMultivariate\<close> instance the base-distribution accessor
  \<^verbatim>\<open>_get_base_distribution\<close> fails with an error: it raises the exception with the message
  of the source and never returns a distribution.
\<close>

theorem accessor_always_fails:
  "IndependentMultivariate_get_base_distribution self =
     Inl (Exception ''IndependentMultivariate does not have an explicit PyTorch base distribution.'')
   \<and> (\<forall>d. IndependentMultivariate_get_base_distribution self \<noteq> Inr d)"
  by (simp add: IndependentMultivariate_get_base_distribution_def)

text \<open>
  C5. For every instance that the constructor returns for \<^verbatim>\<open>in_features = f\<close> and
  \<^verbatim>\<open>cardinality = c\<close>, whatever the class of the base leaf, the stored \<^verbatim>\<open>_pad\<close> equals
  \<open>(c - f mod c) mod c\<close> and lies between \<open>0\<close> and \<open>c - 1\<close>; the expression gives \<open>2\<close> for
  \<open>f = 10, c = 3\<close> and \<open>0\<close> for \<open>f = 9, c = 3\<close>.
\<close>

theorem pad_amount_law:
  "(IndependentMultivariate_init leaf_base_class m f c d = Inr self \<longrightarrow>
      pad self = (c - f mod c) mod c \<and> 0 \<le> pad self \<and> pad self \<le> c - 1)
   \<and> pad_amount 10 3 = Inr 2 \<and> pad_amount 9 3 = Inr 0"
proof (intro conjI impI)
  assume a: "IndependentMultivariate_init leaf_base_class m f c d = Inr self"
  from init_Inr_D(3,5)[OF a]
  show "pad self = (c - f mod c) mod c" "0 \<le> pad self" "pad self \<le> c - 1"
    by simp_all
qed (simp_all add: pad_amount_eq)

theorem pad_amount_law_witness:
  "\<exists>self. IndependentMultivariate_init (RatNormal_class (\<lambda>_ _. 0) (\<lambda>_ _. 0)) 4 10 3 0 = Inr self
     \<and> pad self = 2 \<and> 0 \<le> pad self \<and> pad self \<le> 3 - 1"
proof -
  obtain self where
    s: "IndependentMultivariate_init (RatNormal_class (\<lambda>_ _. 0) (\<lambda>_ _. 0)) 4 10 3 0 = Inr self"
    by (simp add: IndependentMultivariate_init_def RatNormal_class_def RatNormal_init_def
        Leaf_init_def check_valid_def bind_err_def Product_init_def pad_amount_def py_mod_def)
  from pad_amount_law[of "RatNormal_class (\<lambda>_ _. 0) (\<lambda>_ _. 0)" 4 10 3 0 self] s
  show ?thesis by simp
qed

text \<open>
  C8. Constructing an \<^verbatim>\<open>IndependentMultivariate\<close> fails with an error whenever
  \<open>cardinality < 2\<close> or \<open>cardinality > in_features\<close>, whatever the class of the base leaf
  does; so it fails for \<open>in_features = 1, cardinality = 2\<close>.
\<close>

theorem construction_rejects_cardinality:
  "c < 2 \<or> c > f \<Longrightarrow> isl (IndependentMultivariate_init leaf_base_class m f c d)"
  by (cases "IndependentMultivariate_init leaf_base_class m f c d")
     (auto dest: init_Inr_D(3,4))

theorem construction_rejects_cardinality_witness:
  "((2::int) < 2 \<or> (2::int) > 1) \<and>
   isl (IndependentMultivariate_init (RatNormal_class (\<lambda>_ _. 0) (\<lambda>_ _. 0)) 1 1 2 0)"
  using construction_rejects_cardinality[of 2 1 "RatNormal_class (\<lambda>_ _. 0) (\<lambda>_ _. 0)" 1 0]
  by simp

section \<open>Sampling\<close>

text \<open>
  C10. The result of \<^verbatim>\<open>IndependentMultivariate.sample\<close> does not depend on its \<^verbatim>\<open>evidence\<close>
  argument: two calls with the same indices, the same \<^verbatim>\<open>n\<close>, the same collaborators and
  the same state return the same result and the same final state, whatever the two
  evidence values are.
\<close>

theorem sample_ignores_evidence:
  "sample prod_sample leaf_sample self indices0 evidence1 n s =
   sample prod_sample leaf_sample self indices0 evidence2 n s"
  by (simp add: sample_def)

text \<open>
  C9. \<^verbatim>\<open>sample\<close> first calls the sample method of the product layer with the given indices
  and \<^verbatim>\<open>n\<close>, then the sample method of the base leaf with the indices the product layer
  returned and the same \<^verbatim>\<open>n\<close>, and returns the result of the base leaf unchanged. The log
  of calls shows the order; when the product layer raises, its exception is the result
  and the base leaf is not called.
\<close>

theorem sample_calls_combiner_then_leaf:
  "sample (logged_prod_sample ps) (logged_leaf_sample ls) self indices0 evidence n (calls, s) =
     (case ps (prod' self) indices0 n s of
        (Inl e, s1) \<Rightarrow> (Inl e, calls @ [CombinerSample indices0 n], s1)
      | (Inr indices1, s1) \<Rightarrow>
          (case ls (base_leaf self) indices1 n s1 of
             (r, s2) \<Rightarrow> (r, calls @ [CombinerSample indices0 n, LeafSample indices1 n], s2)))"
  by (simp add: sample_def logged_prod_sample_def logged_leaf_sample_def
      split: prod.splits sum.splits)

theorem sample_calls_combiner_then_leaf_witness:
  "sample (logged_prod_sample (\<lambda>p i n s. (Inr (map_option (map (\<lambda>r. r @ r)) i), Suc s)))
          (logged_leaf_sample (\<lambda>l i n s. (Inr [[real s]], Suc s)))
          \<lparr>multiplicity = 1, in_features = 2, dropout = 0, base_leaf = (),
            prod' = \<lparr>p_in_features = 2, p_cardinality = 2, out_features = 1\<rparr>,
            pad = 0, cardinality = 2, out_shape = (1, 1)\<rparr>
          (Some [[2]]) None None ([], 0::nat) =
     (Inr [[1]], [CombinerSample (Some [[2]]) None, LeafSample (Some [[2, 2]]) None], 2)"
  using sample_calls_combiner_then_leaf[of "\<lambda>p i n s. (Inr (map_option (map (\<lambda>r. r @ r)) i), Suc s)"
      "\<lambda>l i n s. (Inr [[real s]], Suc s)"
      "\<lparr>multiplicity = 1, in_features = 2, dropout = 0, base_leaf = (),
        prod' = \<lparr>p_in_features = 2, p_cardinality = 2, out_features = 1\<rparr>,
        pad = 0, cardinality = 2, out_shape = (1, 1)\<rparr>"
      "Some [[2]]" None None "[]" "0::nat"]
  by simp

section \<open>Grouping of padded features\<close>

text \<open>Summing the rows of a group entry by entry, and the groups of a list whose length is a
  multiple of the group size.\<close>

lemma foldl_add_length:
  "length r0 = n \<Longrightarrow> \<forall>r\<in>set rs. length r = n \<Longrightarrow> length (foldl (map2 (+)) r0 rs) = n"
  by (induction rs arbitrary: r0) auto

lemma foldl_add_nth:
  fixes r0 :: "real list"
  shows "length r0 = n \<Longrightarrow> \<forall>r\<in>set rs. length r = n \<Longrightarrow> k < n \<Longrightarrow>
    foldl (map2 (+)) r0 rs ! k = r0 ! k + (\<Sum>r\<leftarrow>rs. r ! k)"
  by (induction rs arbitrary: r0) (auto simp: algebra_simps)

lemma sum_rows_length:
  "rows \<noteq> [] \<Longrightarrow> \<forall>r\<in>set rows. length r = n \<Longrightarrow> length (sum_rows rows) = n"
  by (cases rows) (auto simp: sum_rows_def foldl_add_length)

lemma sum_rows_nth:
  "rows \<noteq> [] \<Longrightarrow> \<forall>r\<in>set rows. length r = n \<Longrightarrow> k < n \<Longrightarrow>
     sum_rows rows ! k = (\<Sum>r\<leftarrow>rows. r ! k)"
  by (cases rows) (auto simp: sum_rows_def foldl_add_nth)

lemma sum_list_take_drop:
  fixes f :: "'a \<Rightarrow> real"
  assumes "k + c \<le> length xs"
  shows "(\<Sum>r\<leftarrow>take c (drop k xs). f r) = (\<Sum>i = k..<k + c. f (xs ! i))"
proof -
  have "map ((!) xs) [k..<k + c] = take c (drop k xs)"
    using assms by (intro map_upt_eqI) simp_all
  then have "take c (drop k xs) = map ((!) xs) [k..<k + c]" by simp
  then have "(\<Sum>r\<leftarrow>take c (drop k xs). f r) = (\<Sum>i\<leftarrow>[k..<k + c]. f (xs ! i))"
    by (simp add: comp_def)
  also have "\<dots> = (\<Sum>i = k..<k + c. f (xs ! i))"
    by (simp add: interv_sum_list_conv_sum_set_nat)
  finally show ?thesis .
qed

lemma chunks_length: "length (chunks c xs) = (length xs + c - 1) div c"
  by (simp add: chunks_def)

lemma chunks_nth: "g < (length xs + c - 1) div c \<Longrightarrow> chunks c xs ! g = take c (drop (g * c) xs)"
  by (simp add: chunks_def)

lemma padded_total:
  fixes f c :: int
  assumes "0 < c"
  shows "f + (c - f mod c) mod c = \<lceil>real_of_int f / real_of_int c\<rceil> * c"
proof -
  have ceil: "\<lceil>real_of_int f / real_of_int c\<rceil> = - ((- f) div c)"
    by (simp add: ceiling_divide_eq_div)
  have f: "f div c * c + f mod c = f" by (rule div_mult_mod_eq)
  show ?thesis
  proof (cases "f mod c = 0")
    case True
    then have "(- f) div c = - (f div c)"
      using assms by (simp add: zdiv_zminus1_eq_if)
    then have e: "- ((- f) div c) * c = f div c * c" by (simp only: minus_minus)
    have r: "(c - f mod c) mod c = 0" using True by simp
    show ?thesis unfolding ceil e r using f True by linarith
  next
    case False
    have "0 \<le> f mod c" using assms by simp
    with False have "0 < f mod c" by simp
    with assms have r: "(c - f mod c) mod c = c - f mod c"
      by (simp add: zmod_zminus1_eq_if)
    have "(- f) div c = - (f div c) - 1"
      using assms False by (simp add: zdiv_zminus1_eq_if)
    then have "- ((- f) div c) = f div c + 1" by linarith
    then have "- ((- f) div c) * c = (f div c + 1) * c" by (simp only:)
    then have e: "- ((- f) div c) * c = f div c * c + c" by (simp only: distrib_right mult_1)
    show ?thesis unfolding ceil e r using f by linarith
  qed
qed

lemma padded_total_nat:
  fixes f c :: int
  assumes "0 < c" "0 \<le> f"
  shows "nat f + nat ((c - f mod c) mod c) = nat \<lceil>real_of_int f / real_of_int c\<rceil> * nat c"
proof -
  have p: "0 \<le> (c - f mod c) mod c" using assms by simp
  have "0 \<le> real_of_int f / real_of_int c" using assms by simp
  then have "- 1 < real_of_int f / real_of_int c" by linarith
  then have g: "0 \<le> \<lceil>real_of_int f / real_of_int c\<rceil>"
    by (simp only: zero_le_ceiling)
  have "nat f + nat ((c - f mod c) mod c) = nat (f + (c - f mod c) mod c)"
    using assms p by (simp add: nat_add_distrib)
  also have "\<dots> = nat (\<lceil>real_of_int f / real_of_int c\<rceil> * c)"
    using padded_total[OF assms(1)] by simp
  also have "\<dots> = nat \<lceil>real_of_int f / real_of_int c\<rceil> * nat c"
    using g by (simp add: nat_mult_distrib)
  finally show ?thesis .
qed

lemma chunks_of_multiple:
  assumes "length xs = G * C" "0 < C"
  shows "length (chunks C xs) = G"
    and "g < G \<Longrightarrow> chunks C xs ! g = take C (drop (g * C) xs)"
    and "g < G \<Longrightarrow> g * C + C \<le> length xs"
proof -
  have n: "(length xs + C - 1) div C = G"
  proof -
    have "(G * C + C - 1) div C = (G * C + (C - 1)) div C" using assms(2) by simp
    also have "\<dots> = G" using assms(2)
      by (metis add_cancel_left_right diff_less div_less div_mult_self4
          less_nat_zero_code less_numeral_extra(1) mult.commute)
    finally show ?thesis using assms(1) by simp
  qed
  show "length (chunks C xs) = G" using n by (simp add: chunks_length)
  show "g < G \<Longrightarrow> chunks C xs ! g = take C (drop (g * C) xs)"
    using n by (simp add: chunks_nth)
  show "g < G \<Longrightarrow> g * C + C \<le> length xs"
  proof -
    assume "g < G"
    then have "Suc g * C \<le> G * C" by (intro mult_le_mono1) simp
    then show ?thesis using assms(1) by (simp add: add.commute)
  qed
qed

lemma padded_group_sum:
  fixes yb :: "real list list"
  assumes rows: "\<forall>r\<in>set yb. length r = M" and k: "k < M" and C: "0 < C"
    and fit: "g * C + C \<le> length yb + P"
  shows "sum_rows (take C (drop (g * C) (yb @ replicate P (replicate M 0)))) ! k =
         (\<Sum>i = g * C..<min (g * C + C) (length yb). yb ! i ! k)"
proof -
  let ?xs = "yb @ replicate P (replicate M (0::real))"
  let ?ch = "take C (drop (g * C) ?xs)"
  have len: "length ?ch = C" using fit by simp
  then have ne: "?ch \<noteq> []" using C by auto
  have all: "\<forall>r\<in>set ?xs. length r = M" using rows by auto
  have chall: "\<forall>r\<in>set ?ch. length r = M"
    using all by (meson in_set_dropD in_set_takeD)
  have "sum_rows ?ch ! k = (\<Sum>r\<leftarrow>?ch. r ! k)"
    by (rule sum_rows_nth[OF ne chall k])
  also have "\<dots> = (\<Sum>i = g * C..<g * C + C. ?xs ! i ! k)"
    using fit by (intro sum_list_take_drop) simp
  also have "\<dots> = (\<Sum>i = g * C..<g * C + C. if i < length yb then yb ! i ! k else 0)"
  proof (rule sum.cong[OF refl])
    fix i assume "i \<in> {g * C..<g * C + C}"
    then have "i < length yb + P" using fit by simp
    then show "?xs ! i ! k = (if i < length yb then yb ! i ! k else 0)"
      using k by (simp add: nth_append)
  qed
  also have "\<dots> = (\<Sum>i \<in> {g * C..<g * C + C} \<inter> {i. i < length yb}. yb ! i ! k)"
    by (simp add: sum.If_cases)
  also have "{g * C..<g * C + C} \<inter> {i. i < length yb} = {g * C..<min (g * C + C) (length yb)}"
    by auto
  finally show ?thesis .
qed

section \<open>Forward pass of the composite leaf\<close>

lemma length_take_drop: "k + c \<le> length zs \<Longrightarrow> length (take c (drop k zs)) = c"
  by simp

lemma has_shape3_D:
  assumes "has_shape3 y B F M" "b \<in> set y"
  shows "length b = F" "\<forall>r\<in>set b. length r = M"
  using assms by (auto simp: has_shape3_def has_shape2_def)

lemma width_of_shape:
  assumes "length b = F" "\<forall>r\<in>set b. length r = M" "0 < F"
  shows "width b = M"
  using assms by (cases b) (auto simp: width_def)

lemma forward_pads_then_groups:
  assumes init: "IndependentMultivariate_init leaf_base_class m f c d = Inr self"
    and leaf: "leaf_forward (base_leaf self) x = Inr y"
    and shape: "has_shape3 y B (nat f) (nat m)"
  shows "forward leaf_forward prod_forward self x =
     prod_forward (prod' self)
       (map (\<lambda>b. b @ replicate (nat (pad self)) (replicate (nat m) 0)) y)"
proof (cases "pad self = 0")
  case True
  then show ?thesis using leaf by (simp add: forward_def bind_err_def)
next
  case False
  have f: "0 < nat f" using init_Inr_D(2)[OF init] by simp
  have p: "0 \<le> pad self" using init_Inr_D(3,5)[OF init] by simp
  have "F_pad y (pad self) 0 =
      map (\<lambda>b. b @ replicate (nat (pad self)) (replicate (nat m) 0)) y"
    unfolding F_pad_def
  proof (rule map_cong[OF refl])
    fix b assume b: "b \<in> set y"
    have "width b = nat m"
      by (rule width_of_shape[OF has_shape3_D(1)[OF shape b] has_shape3_D(2)[OF shape b] f])
    then show "(if 0 \<le> pad self then b @ replicate (nat (pad self)) (replicate (width b) 0)
          else take (length b - nat (- pad self)) b) =
         b @ replicate (nat (pad self)) (replicate (nat m) 0)"
      using p by simp
  qed
  then show ?thesis using leaf False by (simp add: forward_def bind_err_def)
qed

lemma padded_length:
  assumes init: "IndependentMultivariate_init leaf_base_class m f c d = Inr self"
  shows "nat f + nat (pad self) = nat \<lceil>real_of_int f / real_of_int c\<rceil> * nat c" "0 < nat c"
  using init_Inr_D(2,3,5)[OF init] padded_total_nat[of c f] by simp_all

lemma forward_shape_generic:
  assumes init: "IndependentMultivariate_init leaf_base_class m f c d = Inr self"
    and leaf: "leaf_forward (base_leaf self) x = Inr y"
    and shape: "has_shape3 y B (nat f) (nat m)"
  shows "\<exists>t. forward leaf_forward Product_forward self x = Inr t \<and>
     has_shape3 t B (nat \<lceil>real_of_int f / real_of_int c\<rceil>) (nat m)"
proof -
  let ?G = "nat \<lceil>real_of_int f / real_of_int c\<rceil>"
  let ?C = "nat c"
  let ?pd = "\<lambda>b. b @ replicate (nat (pad self)) (replicate (nat m) (0::real))"
  let ?t = "map (\<lambda>b. map sum_rows (chunks ?C (?pd b))) y"
  have fw: "forward leaf_forward Product_forward self x = Inr ?t"
    using forward_pads_then_groups[where leaf_forward = leaf_forward and prod_forward = Product_forward,
        OF init leaf shape] init_Inr_D(6)[OF init]
    by (simp add: Product_forward_def comp_def)
  have "has_shape2 (map sum_rows (chunks ?C (?pd b))) ?G (nat m)" if b: "b \<in> set y" for b
  proof -
    have len: "length (?pd b) = ?G * ?C"
      using has_shape3_D(1)[OF shape b] padded_length(1)[OF init] by simp
    have rows: "\<forall>r\<in>set (?pd b). length r = nat m"
      using has_shape3_D(2)[OF shape b] by auto
    note ch = chunks_of_multiple[OF len padded_length(2)[OF init]]
    have "length (sum_rows ch') = nat m" if "ch' \<in> set (chunks ?C (?pd b))" for ch'
    proof -
      from that obtain g where g: "g < ?G" and e: "ch' = chunks ?C (?pd b) ! g"
        using ch(1) by (metis in_set_conv_nth)
      have e': "ch' = take ?C (drop (g * ?C) (?pd b))" using e ch(2)[OF g] by simp
      have "length ch' = ?C" unfolding e' by (rule length_take_drop[OF ch(3)[OF g]])
      then have ne: "ch' \<noteq> []" using padded_length(2)[OF init] by auto
      have "\<forall>r\<in>set ch'. length r = nat m"
        unfolding e' using rows by (meson in_set_dropD in_set_takeD)
      then show ?thesis using ne by (intro sum_rows_length) simp_all
    qed
    then show ?thesis using ch(1) by (simp add: has_shape2_def)
  qed
  then have "has_shape3 ?t B ?G (nat m)"
    using shape by (auto simp: has_shape3_def)
  with fw show ?thesis by blast
qed

lemma forward_entries:
  assumes init: "IndependentMultivariate_init leaf_base_class m f c d = Inr self"
    and leaf: "leaf_forward (base_leaf self) x = Inr y"
    and shape: "has_shape3 y B (nat f) (nat m)"
    and t: "forward leaf_forward Product_forward self x = Inr t"
    and b: "b < B" and g: "g < nat \<lceil>real_of_int f / real_of_int c\<rceil>" and k: "k < nat m"
  shows "t ! b ! g ! k = (\<Sum>i = g * nat c..<min (g * nat c + nat c) (nat f). y ! b ! i ! k)"
proof -
  let ?G = "nat \<lceil>real_of_int f / real_of_int c\<rceil>"
  let ?C = "nat c"
  let ?pd = "\<lambda>b. b @ replicate (nat (pad self)) (replicate (nat m) (0::real))"
  have B: "length y = B" using shape by (simp add: has_shape3_def)
  then have yb: "y ! b \<in> set y" using b by simp
  have "t = map (\<lambda>b. map sum_rows (chunks ?C (?pd b))) y"
    using forward_pads_then_groups[where leaf_forward = leaf_forward and prod_forward = Product_forward,
        OF init leaf shape] init_Inr_D(6)[OF init] t
    by (simp add: Product_forward_def comp_def)
  then have tb: "t ! b = map sum_rows (chunks ?C (?pd (y ! b)))" using b B by simp
  have len: "length (?pd (y ! b)) = ?G * ?C"
    using has_shape3_D(1)[OF shape yb] padded_length(1)[OF init] by simp
  note ch = chunks_of_multiple[OF len padded_length(2)[OF init]]
  have "t ! b ! g = sum_rows (take ?C (drop (g * ?C) (?pd (y ! b))))"
    unfolding tb using ch(1) ch(2)[OF g] g by simp
  moreover have "g * ?C + ?C \<le> length (y ! b) + nat (pad self)"
    using ch(3)[OF g] by simp
  ultimately show ?thesis
    using padded_group_sum[OF has_shape3_D(2)[OF shape yb] k padded_length(2)[OF init], of g "nat (pad self)"]
      has_shape3_D(1)[OF shape yb] by simp
qed

lemma random_tensor_shape: "has_shape2 (random_tensor rnd f m) (nat f) (nat m)"
  by (auto simp: random_tensor_def has_shape2_def)

lemma RatNormal_class_D:
  assumes "RatNormal_class randn rand m f d = Inr l"
  shows "has_shape2 (means l) (nat f) (nat m)" "has_shape2 (stds l) (nat f) (nat m)"
    "in_features l = f" "min_sigma l = 1 / 10" "max_sigma l = 1" "max_mean l = None"
  using assms
  by (auto simp: RatNormal_class_def RatNormal_init_def Leaf_init_def bind_err_Inr_iff
      check_valid_def random_tensor_shape split: if_splits)

lemma RatNormal_class_distribution:
  assumes l: "RatNormal_class randn rand m f d = Inr l"
  shows "\<exists>dist. RatNormal_get_base_distribution l = Inr dist
     \<and> has_shape2 (loc dist) (nat f) (nat m) \<and> has_shape2 (scale dist) (nat f) (nat m)"
proof -
  have lt: "min_sigma l < max_sigma l" using RatNormal_class_D(4,5)[OF l] by simp
  have "RatNormal_get_base_distribution l =
      Inr \<lparr>loc = means l,
           scale = tmap sqrt (tmap (\<lambda>s. min_sigma l + (max_sigma l - min_sigma l) * sigmoid s) (stds l))\<rparr>"
    using RatNormal_class_D(6)[OF l]
    by (simp add: RatNormal_get_base_distribution_def sigma_tensor[OF lt] effective_mean_identity
        torch_sqrt_def bind_err_def)
  moreover have "has_shape2 (tmap g t) a b" if "has_shape2 t a b" for g t a b
    using that by (auto simp: has_shape2_def tmap_def)
  ultimately show ?thesis using RatNormal_class_D(1,2)[OF l] by simp
qed

lemma Leaf_forward_shape:
  assumes l: "RatNormal_class randn rand m f d = Inr l"
    and x: "\<forall>row\<in>set x. int (length row) = f"
  shows "\<exists>y. Leaf_forward l x = Inr y \<and> has_shape3 y (length x) (nat f) (nat m)"
proof -
  obtain dist where d: "RatNormal_get_base_distribution l = Inr dist"
    and sl: "has_shape2 (loc dist) (nat f) (nat m)" and ss: "has_shape2 (scale dist) (nat f) (nat m)"
    using RatNormal_class_distribution[OF l] by blast
  let ?y = "map (\<lambda>row. map (\<lambda>(v, mu, sd). map (\<lambda>(m, s). log_prob m s v) (zip mu sd))
                     (zip row (zip (loc dist) (scale dist)))) x"
  have "Leaf_forward l x = Inr ?y"
    using d x RatNormal_class_D(3)[OF l] by (simp add: Leaf_forward_def bind_err_def)
  moreover have "has_shape3 ?y (length x) (nat f) (nat m)"
    unfolding has_shape3_def has_shape2_def
  proof (intro conjI ballI)
    show "length ?y = length x" by simp
  next
    fix r assume "r \<in> set ?y"
    then obtain row where row: "row \<in> set x"
      and r: "r = map (\<lambda>(v, mu, sd). map (\<lambda>(m, s). log_prob m s v) (zip mu sd))
                     (zip row (zip (loc dist) (scale dist)))" by auto
    have "length row = nat f" using x row by auto
    then show "length r = nat f" using sl ss by (simp add: r has_shape2_def)
    fix c assume "c \<in> set r"
    then obtain v mu sd where z: "(v, mu, sd) \<in> set (zip row (zip (loc dist) (scale dist)))"
      and c: "c = map (\<lambda>(m, s). log_prob m s v) (zip mu sd)"
      unfolding r by auto
    have "(mu, sd) \<in> set (zip (loc dist) (scale dist))" by (rule set_zip_rightD[OF z])
    then have "mu \<in> set (loc dist)" "sd \<in> set (scale dist)"
      by (rule set_zip_leftD, rule set_zip_rightD)
    then show "length c = nat m" using sl ss by (simp add: c has_shape2_def)
  qed
  ultimately show ?thesis by blast
qed

text \<open>
  C3. For an \<^verbatim>\<open>IndependentMultivariate\<close> constructed over the default base leaf with
  \<open>in_features = f\<close>, \<open>cardinality = c\<close> and \<open>multiplicity = m\<close>, and an input batch whose rows
  all have \<open>f\<close> features, \<^verbatim>\<open>forward\<close> returns a tensor of shape
  \<open>[batch size, ceil (f / c), m]\<close>.
\<close>

theorem forward_output_shape:
  assumes "IndependentMultivariate_init (RatNormal_class randn rand) m f c d = Inr self"
    and "\<forall>row\<in>set x. int (length row) = f"
  shows "\<exists>t. forward Leaf_forward Product_forward self x = Inr t \<and>
     has_shape3 t (length x) (nat \<lceil>real_of_int f / real_of_int c\<rceil>) (nat m)"
proof -
  obtain y where "Leaf_forward (base_leaf self) x = Inr y" "has_shape3 y (length x) (nat f) (nat m)"
    using Leaf_forward_shape[OF init_Inr_D(9)[OF assms(1)] assms(2)] by blast
  then show ?thesis
    by (rule forward_shape_generic[where leaf_forward = Leaf_forward, OF assms(1)])
qed

lemma init_example:
  "1 \<le> m \<Longrightarrow> 2 \<le> c \<Longrightarrow> c \<le> f \<Longrightarrow>
   \<exists>self. IndependentMultivariate_init (RatNormal_class randn rand) m f c d = Inr self"
  by (simp add: IndependentMultivariate_init_def RatNormal_class_def RatNormal_init_def
      Leaf_init_def check_valid_def bind_err_def Product_init_def pad_amount_def py_mod_def)

theorem forward_output_shape_witness:
  "\<exists>self t. IndependentMultivariate_init (RatNormal_class (\<lambda>_ _. 0) (\<lambda>_ _. 0)) 4 7 3 0 = Inr self
     \<and> pad self = 2
     \<and> (\<forall>row\<in>set (replicate 5 (replicate 7 (0::real))). int (length row) = 7)
     \<and> forward Leaf_forward Product_forward self (replicate 5 (replicate 7 0)) = Inr t
     \<and> has_shape3 t 5 3 4"
proof -
  obtain self where
    s: "IndependentMultivariate_init (RatNormal_class (\<lambda>_ _. 0) (\<lambda>_ _. 0)) 4 7 3 0 = Inr self"
    using init_example[of 4 3 7 "\<lambda>_ _. 0" "\<lambda>_ _. 0" 0] by auto
  have x: "\<forall>row\<in>set (replicate 5 (replicate 7 (0::real))). int (length row) = 7" by simp
  have p: "pad self = 2" using init_Inr_D(5)[OF s] by simp
  from forward_output_shape[OF s x] s p x show ?thesis by auto
qed

text \<open>
  C4. Let \<open>y\<close> be the per-feature log-likelihood tensor of the base leaf, of shape
  \<open>[B, f, m]\<close>. Whatever the forward of the product layer does, \<^verbatim>\<open>forward\<close> calls it on the
  tensor \<open>y\<close> with exactly \<^verbatim>\<open>_pad\<close> slices of zeros appended at the end of the feature
  axis, and on \<open>y\<close> itself when \<^verbatim>\<open>_pad = 0\<close>. With the product layer of the spec, each
  entry of the result is the sum of the entries of \<open>y\<close> over the positions of its group
  that are smaller than \<open>f\<close>: the padded positions add nothing, the result is the one
  obtained by leaving them out of the sum.
\<close>

theorem padding_contributes_nothing:
  assumes init: "IndependentMultivariate_init leaf_base_class m f c d = Inr self"
    and leaf: "leaf_forward (base_leaf self) x = Inr y"
    and shape: "has_shape3 y B (nat f) (nat m)"
  shows "forward leaf_forward prod_forward self x =
       prod_forward (prod' self)
         (map (\<lambda>b. b @ replicate (nat (pad self)) (replicate (nat m) 0)) y)
     \<and> (pad self = 0 \<longrightarrow> forward leaf_forward prod_forward self x = prod_forward (prod' self) y)
     \<and> (\<exists>t. forward leaf_forward Product_forward self x = Inr t \<and>
          (\<forall>b<B. \<forall>g<nat \<lceil>real_of_int f / real_of_int c\<rceil>. \<forall>k<nat m.
             t ! b ! g ! k = (\<Sum>i = g * nat c..<min (g * nat c + nat c) (nat f). y ! b ! i ! k)))"
proof (intro conjI impI)
  show "forward leaf_forward prod_forward self x =
       prod_forward (prod' self)
         (map (\<lambda>b. b @ replicate (nat (pad self)) (replicate (nat m) 0)) y)"
    by (rule forward_pads_then_groups[where leaf_forward = leaf_forward, OF init leaf shape])
  show "forward leaf_forward prod_forward self x = prod_forward (prod' self) y" if "pad self = 0"
    using that leaf by (simp add: forward_def bind_err_def)
  obtain t where t: "forward leaf_forward Product_forward self x = Inr t"
    using forward_shape_generic[where leaf_forward = leaf_forward, OF init leaf shape] by blast
  show "\<exists>t. forward leaf_forward Product_forward self x = Inr t \<and>
          (\<forall>b<B. \<forall>g<nat \<lceil>real_of_int f / real_of_int c\<rceil>. \<forall>k<nat m.
             t ! b ! g ! k = (\<Sum>i = g * nat c..<min (g * nat c + nat c) (nat f). y ! b ! i ! k))"
    using forward_entries[where leaf_forward = leaf_forward, OF init leaf shape t] t by blast
qed

text \<open>
  At \<open>in_features = 3\<close>, \<open>cardinality = 2\<close>, \<open>multiplicity = 1\<close> the stored \<^verbatim>\<open>_pad\<close> is 1. A
  product layer that returns its argument shows the tensor it is called on: the three
  slices of \<open>y\<close> followed by one slice of zeros, which differs from \<open>y\<close>. With the product
  layer of the spec, the second group is the third feature alone.
\<close>

theorem padding_contributes_nothing_witness:
  "\<exists>self y t. IndependentMultivariate_init (RatNormal_class (\<lambda>_ _. 0) (\<lambda>_ _. 0)) 1 3 2 0 = Inr self
     \<and> pad self = 1
     \<and> Leaf_forward (base_leaf self) [[0, 0, 0]] = Inr y \<and> has_shape3 y 1 3 1
     \<and> forward Leaf_forward (\<lambda>p z. Inr z) self [[0, 0, 0]] = Inr [y ! 0 @ [[0]]]
     \<and> forward Leaf_forward (\<lambda>p z. Inr z) self [[0, 0, 0]] \<noteq> Inr y
     \<and> forward Leaf_forward Product_forward self [[0, 0, 0]] = Inr t
     \<and> t ! 0 ! 0 ! 0 = y ! 0 ! 0 ! 0 + y ! 0 ! 1 ! 0
     \<and> t ! 0 ! 1 ! 0 = y ! 0 ! 2 ! 0"
proof -
  obtain self where
    s: "IndependentMultivariate_init (RatNormal_class (\<lambda>_ _. 0) (\<lambda>_ _. 0)) 1 3 2 0 = Inr self"
    using init_example[of 1 2 3 "\<lambda>_ _. 0" "\<lambda>_ _. 0" 0] by auto
  have p: "pad self = 1" using init_Inr_D(5)[OF s] by simp
  obtain y where y: "Leaf_forward (base_leaf self) [[0, 0, 0]] = Inr y"
    and sh: "has_shape3 y (length [[0::real, 0, 0]]) (nat 3) (nat 1)"
    using Leaf_forward_shape[OF init_Inr_D(9)[OF s], of "[[0, 0, 0]]"] by auto
  have sh': "has_shape3 y 1 3 1" using sh by simp
  then obtain y0 where y0: "y = [y0]" and l0: "length y0 = 3"
    by (cases y) (auto simp: has_shape3_def has_shape2_def)
  note pc = padding_contributes_nothing[where leaf_forward = Leaf_forward, OF s y sh]
  have "forward Leaf_forward (\<lambda>p z. Inr z) self [[0, 0, 0]] =
      Inr (map (\<lambda>b. b @ replicate (nat (pad self)) (replicate (nat 1) 0)) y)"
    using pc[of "\<lambda>p z. Inr z"] by blast
  then have id: "forward Leaf_forward (\<lambda>p z. Inr z) self [[0, 0, 0]] = Inr [y ! 0 @ [[0]]]"
    using p y0 by simp
  have ne: "forward Leaf_forward (\<lambda>p z. Inr z) self [[0, 0, 0]] \<noteq> Inr y"
    unfolding id using y0 by simp
  from pc[of Product_forward]
  obtain t where t: "forward Leaf_forward Product_forward self [[0, 0, 0]] = Inr t"
    and e: "\<forall>b<length [[0::real, 0, 0]]. \<forall>g<nat \<lceil>real_of_int 3 / real_of_int 2\<rceil>. \<forall>k<nat 1.
             t ! b ! g ! k = (\<Sum>i = g * nat 2..<min (g * nat 2 + nat 2) (nat 3). y ! b ! i ! k)"
    by blast
  have g: "nat \<lceil>real_of_int 3 / real_of_int 2\<rceil> = 2" by simp
  have i0: "{0 * nat 2..<min (0 * nat 2 + nat 2) (nat 3)} = {0, 1}" by auto
  have i1: "{1 * nat 2..<min (1 * nat 2 + nat 2) (nat 3)} = {2}" by auto
  have "t ! 0 ! 0 ! 0 = (\<Sum>i = 0 * nat 2..<min (0 * nat 2 + nat 2) (nat 3). y ! 0 ! i ! 0)"
    by (rule e[rule_format]) (simp_all only: g, simp_all)
  then have e0: "t ! 0 ! 0 ! 0 = y ! 0 ! 0 ! 0 + y ! 0 ! 1 ! 0"
    unfolding i0 by simp
  have "t ! 0 ! 1 ! 0 = (\<Sum>i = 1 * nat 2..<min (1 * nat 2 + nat 2) (nat 3). y ! 0 ! i ! 0)"
    by (rule e[rule_format]) (simp_all only: g, simp_all)
  then have e1: "t ! 0 ! 1 ! 0 = y ! 0 ! 2 ! 0"
    unfolding i1 by simp
  from s p y sh' id ne t e0 e1 show ?thesis by blast
qed

end
